theory Spec2Isabelle
  imports Complex_Main "HOL-Library.Product_Lexorder" "HOL-Library.Multiset"
begin

section \<open>Salary report: data model\<close>

text \<open>
  The embedding follows \<^verbatim>\<open>src/testing.py\<close>, class \<^verbatim>\<open>SalariesReport\<close>:
  \<^verbatim>\<open>calculate_salary_stats\<close> (lines 63-91), \<^verbatim>\<open>plot_distrib\<close> (lines 93-129, up to the
  data handed to \<^verbatim>\<open>ax.bar\<close>) and \<^verbatim>\<open>report_all\<close> (lines 19-59, without the drawing calls).

  Salaries of the data source are integers (Python and pandas integers, taken as unbounded
  \<open>int\<close>). A pandas float that arises from integers (a row mean, a column mean, a median,
  a weight \<open>1 / n\<close>) is modelled by the rational number it stands for; binary rounding is
  not part of the model.
\<close>

datatype error = TypeError | ValueError | ZeroDivisionError

text \<open>
  What a cell of the frame, or an argument of Python's \<^verbatim>\<open>range\<close>, can hold: an integer,
  a float, or a whole pandas Series of integers.
\<close>

datatype pyval = IntV int | FloatV rat | SeriesV "int list"

text \<open>An offer has the two salary columns; the type of the cells is a parameter.\<close>

record 'a offer =
  minSalary :: 'a
  maxSalary :: 'a

text \<open>A row of the frame after line 79, which adds the column \<^verbatim>\<open>salary_mean\<close>.\<close>

record 'a row = "'a offer" +
  salary_mean :: int

text \<open>
  The tuple \<^verbatim>\<open>(df, mean, median, min_, max_)\<close> returned by \<^verbatim>\<open>calculate_salary_stats\<close>;
  \<open>min'\<close> and \<open>max'\<close> stand for the source's \<^verbatim>\<open>min_\<close> and \<^verbatim>\<open>max_\<close>.
\<close>

record stats =
  df :: "pyval row list"
  mean :: int
  median :: int
  min' :: int
  max' :: int

text \<open>
  The tuple \<^verbatim>\<open>(qname, dataframe, max_, min_, mean, median)\<close> that \<^verbatim>\<open>report_all\<close> appends
  to \<^verbatim>\<open>stats\<close>: the statistics with the name of the query.
\<close>

record stat = stats +
  qname :: string


section \<open>calculate_salary_stats\<close>

subsection \<open>Cleaning (lines 70-73)\<close>

text \<open>Line 71, \<^verbatim>\<open>df = df[df.minSalary != 0]\<close>.\<close>

definition remove_unadvertised :: "int offer list \<Rightarrow> int offer list" where
  "remove_unadvertised offers = filter (\<lambda>off. minSalary off \<noteq> 0) offers"

text \<open>
  The function mapped over the column \<^verbatim>\<open>maxSalary\<close> in line 73,
  \<^verbatim>\<open>lambda x: df['minSalary'] if x == 0 else x\<close>. Its first argument is the column
  \<^verbatim>\<open>df['minSalary']\<close> of the filtered frame, which the lambda returns whole.
\<close>

definition fill_maxSalary :: "int list \<Rightarrow> int \<Rightarrow> pyval" where
  "fill_maxSalary column x = (if x = 0 then SeriesV column else IntV x)"

text \<open>
  Lines 71 and 73 together. \<^verbatim>\<open>Series.apply\<close> is taken as the elementwise map it is
  documented to be: each cell of the new column holds what the lambda returned for it.
\<close>

definition cleaning :: "int offer list \<Rightarrow> pyval offer list" where
  "cleaning offers =
     (let df = remove_unadvertised offers
      in map (\<lambda>off. \<lparr>minSalary = IntV (minSalary off),
                     maxSalary = fill_maxSalary (map minSalary df) (maxSalary off)\<rparr>) df)"

subsection \<open>Statistics (lines 75-91)\<close>

text \<open>
  Python's \<^verbatim>\<open>int(x)\<close> and numpy's \<^verbatim>\<open>astype(int)\<close> on a float: truncation toward zero.
\<close>

definition py_int :: "rat \<Rightarrow> int" where
  "py_int x = (if x < 0 then \<lceil>x\<rceil> else \<lfloor>x\<rfloor>)"

text \<open>
  Line 79 on one row: the mean of the two salary cells, cast to an integer. The slice
  \<^verbatim>\<open>df.loc[:, "minSalary":"maxSalary"]\<close> is taken to hold these two columns only.
\<close>

definition row_mean :: "int \<Rightarrow> int \<Rightarrow> int" where
  "row_mean a b = py_int ((of_int a + of_int b) / 2)"

text \<open>\<^verbatim>\<open>Series.mean()\<close> and \<^verbatim>\<open>Series.median()\<close> of a non-empty integer column.\<close>

definition series_mean :: "int list \<Rightarrow> rat" where
  "series_mean xs = of_int (sum_list xs) / of_nat (length xs)"

definition series_median :: "int list \<Rightarrow> rat" where
  "series_median xs =
     (let s = sort xs; n = length s
      in if odd n then of_int (s ! (n div 2))
         else (of_int (s ! (n div 2 - 1)) + of_int (s ! (n div 2))) / 2)"

text \<open>\<^verbatim>\<open>Series.min()\<close> and \<^verbatim>\<open>Series.max()\<close> of a non-empty integer column.\<close>

definition series_min :: "int list \<Rightarrow> int" where
  "series_min xs = fold min (tl xs) (hd xs)"

definition series_max :: "int list \<Rightarrow> int" where
  "series_max xs = fold max (tl xs) (hd xs)"

text \<open>
  The aggregations of lines 79-89 are arithmetic on numbers. \<open>scalar_cells\<close> reads the two
  salary cells of a row as integers. It has no answer for a cell that holds a Series: the
  column then has dtype object, and a reduction over it has no number to return. Integer
  offers never produce a float cell (lemma \<open>fill_maxSalary_cases\<close> below).
\<close>

fun scalar :: "pyval \<Rightarrow> int option" where
  "scalar (IntV i) = Some i"
| "scalar (FloatV x) = None"
| "scalar (SeriesV c) = None"

definition scalar_cells :: "(pyval, 'z) offer_scheme \<Rightarrow> (int \<times> int) option" where
  "scalar_cells r =
     (case scalar (minSalary r) of
        None \<Rightarrow> None
      | Some a \<Rightarrow> (case scalar (maxSalary r) of None \<Rightarrow> None | Some b \<Rightarrow> Some (a, b)))"

fun scalar_frame :: "pyval offer list \<Rightarrow> (int \<times> int) list option" where
  "scalar_frame [] = Some []"
| "scalar_frame (r # rs) =
     (case scalar_cells r of
        None \<Rightarrow> None
      | Some c \<Rightarrow> (case scalar_frame rs of None \<Rightarrow> None | Some cs \<Rightarrow> Some (c # cs)))"

text \<open>
  The whole function. An empty list of offers is falsy: the body is skipped and the function
  returns \<^verbatim>\<open>None\<close> (\<open>Inr None\<close>). When the filter of line 71 leaves no row, the mean of the
  empty column is NaN and \<^verbatim>\<open>int(nan)\<close> in line 84 raises \<^verbatim>\<open>ValueError\<close>. A frame with a
  Series in a cell makes the reductions raise; the model reports \<open>TypeError\<close> there.
\<close>

definition calculate_salary_stats :: "int offer list \<Rightarrow> error + stats option" where
  "calculate_salary_stats offers =
     (if offers = [] then Inr None
      else
        (case scalar_frame (cleaning offers) of
           None \<Rightarrow> Inl TypeError
         | Some cells \<Rightarrow>
             (let offers_mean = map (\<lambda>(a, b). row_mean a b) cells
              in if offers_mean = [] then Inl ValueError
                 else Inr (Some
                   \<lparr>df = map (\<lambda>(a, b). \<lparr>minSalary = IntV a, maxSalary = IntV b,
                                         salary_mean = row_mean a b\<rparr>) cells,
                    mean = py_int (series_mean offers_mean),
                    median = py_int (series_median offers_mean),
                    min' = series_min (map fst cells),
                    max' = series_max (map snd cells)\<rparr>))))"

section \<open>plot_distrib\<close>

text \<open>
  Lines 108-112: \<^verbatim>\<open>query_width = int(max_ // box_width) + 1\<close> and
  \<^verbatim>\<open>indexes = [box * box_width for box in range(query_width)]\<close>. Python's \<^verbatim>\<open>//\<close> on
  integers is floor division, which is \<open>div\<close> on \<open>int\<close>; \<^verbatim>\<open>range(n)\<close> is empty for
  \<open>n \<le> 0\<close>, as \<open>[0..n - 1]\<close> is.
\<close>

definition query_width :: "int \<Rightarrow> int \<Rightarrow> int" where
  "query_width mx box_width = mx div box_width + 1"

definition indexes :: "int \<Rightarrow> int \<Rightarrow> int list" where
  "indexes mx box_width = map (\<lambda>box. box * box_width) [0..query_width mx box_width - 1]"

text \<open>
  Line 118, \<^verbatim>\<open>index in range(row['minSalary'], row['maxSalary'])\<close>. \<^verbatim>\<open>range\<close> takes
  integers only; with a float or a Series it raises \<^verbatim>\<open>TypeError\<close>.
\<close>

fun range_contains :: "int \<Rightarrow> pyval \<Rightarrow> pyval \<Rightarrow> error + bool" where
  "range_contains index (IntV lo) (IntV hi) = Inr (lo \<le> index \<and> index < hi)"
| "range_contains index (FloatV x) hi = Inl TypeError"
| "range_contains index (SeriesV c) hi = Inl TypeError"
| "range_contains index (IntV lo) (FloatV x) = Inl TypeError"
| "range_contains index (IntV lo) (SeriesV c) = Inl TypeError"

text \<open>Lines 116-119: the inner loop over \<^verbatim>\<open>indexes\<close> that collects \<^verbatim>\<open>boxes_filled\<close>.\<close>

fun boxes_filled :: "int list \<Rightarrow> pyval row \<Rightarrow> error + int list" where
  "boxes_filled [] row = Inr []"
| "boxes_filled (index # rest) row =
     (case range_contains index (minSalary row) (maxSalary row) of
        Inl e \<Rightarrow> Inl e
      | Inr hit \<Rightarrow>
          (case boxes_filled rest row of
             Inl e \<Rightarrow> Inl e
           | Inr boxes \<Rightarrow> Inr (if hit then index # boxes else boxes)))"

text \<open>
  \<^verbatim>\<open>res\<close> is a \<^verbatim>\<open>defaultdict(int)\<close>: an association list in insertion order, a missing key
  reading as 0. \<open>add_weight\<close> is \<^verbatim>\<open>res[box] += weigth\<close>.
\<close>

type_synonym res = "(int \<times> rat) list"

fun add_weight :: "int \<Rightarrow> rat \<Rightarrow> res \<Rightarrow> res" where
  "add_weight box w [] = [(box, 0 + w)]"
| "add_weight box w ((k, v) # rest) =
     (if k = box then (k, v + w) # rest else (k, v) # add_weight box w rest)"

definition weight_of :: "res \<Rightarrow> int \<Rightarrow> rat" where
  "weight_of res box = (case map_of res box of None \<Rightarrow> 0 | Some w \<Rightarrow> w)"

text \<open>Lines 123-124, \<^verbatim>\<open>for box in boxes_filled: res[box] += weigth\<close>.\<close>

fun fill_boxes :: "rat \<Rightarrow> int list \<Rightarrow> res \<Rightarrow> res" where
  "fill_boxes w [] res = res"
| "fill_boxes w (box # boxes) res = fill_boxes w boxes (add_weight box w res)"

text \<open>Lines 116-124: the body of the loop over the rows of the frame.\<close>

definition add_offer :: "int list \<Rightarrow> res \<Rightarrow> pyval row \<Rightarrow> error + res" where
  "add_offer ixs res row =
     (case boxes_filled ixs row of
        Inl e \<Rightarrow> Inl e
      | Inr boxes \<Rightarrow>
          Inr (if boxes \<noteq> [] then fill_boxes (1 / of_nat (length boxes)) boxes res else res))"

text \<open>Line 115, \<^verbatim>\<open>for i, row in df.iterrows()\<close>.\<close>

fun add_offers :: "int list \<Rightarrow> res \<Rightarrow> pyval row list \<Rightarrow> error + res" where
  "add_offers ixs res [] = Inr res"
| "add_offers ixs res (row # rows) =
     (case add_offer ixs res row of
        Inl e \<Rightarrow> Inl e
      | Inr res' \<Rightarrow> add_offers ixs res' rows)"

text \<open>
  The function up to line 126: the result is \<^verbatim>\<open>sorted(res.items())\<close>, the pairs of bucket
  start and weight in the order of Python's tuple comparison (the lexicographic order of
  pairs). With a Python integer \<^verbatim>\<open>max_\<close>, \<^verbatim>\<open>max_ // box_width\<close> raises
  \<^verbatim>\<open>ZeroDivisionError\<close> for a width of 0; \<^verbatim>\<open>report_all\<close> passes 1000, and every
  property below is about a positive width.
\<close>

definition plot_distrib :: "stat \<Rightarrow> int \<Rightarrow> error + res" where
  "plot_distrib stat box_width =
     (if box_width = 0 then Inl ZeroDivisionError
      else
        (case add_offers (indexes (max' stat) box_width) [] (df stat) of
           Inl e \<Rightarrow> Inl e
         | Inr res \<Rightarrow> Inr (sort res)))"

section \<open>report_all\<close>



text \<open>
  The sort key of lines 31 and 52, \<^verbatim>\<open>(item[2], item[5])\<close>: the pair of \<^verbatim>\<open>max_\<close> and
  \<^verbatim>\<open>median\<close>, compared as Python compares tuples.
\<close>

definition by_max_median :: "stat \<Rightarrow> int \<times> int" where
  "by_max_median item = (max' item, median item)"

text \<open>
  \<^verbatim>\<open>list.sort(key=..., reverse=True)\<close>. Python's sort is stable, also with
  \<^verbatim>\<open>reverse=True\<close>: it reverses the list, sorts it stably, and reverses the result.
\<close>

definition sort_reverse :: "('a \<Rightarrow> 'k::linorder) \<Rightarrow> 'a list \<Rightarrow> 'a list" where
  "sort_reverse key xs = rev (sort_key key (rev xs))"

text \<open>Line 31, and line 52 applied to the list as line 31 left it.\<close>

definition descending :: "stat list \<Rightarrow> stat list" where
  "descending stats = sort_reverse by_max_median stats"

definition ascending :: "stat list \<Rightarrow> stat list" where
  "ascending stats = sort_key by_max_median (descending stats)"




section \<open>Properties named by the specification\<close>

text \<open>
  The invariant the specification states for a cleaned record: integer cells with
  \<open>maxSalary \<ge> minSalary > 0\<close>.
\<close>

definition cleaned_ok :: "(pyval, 'z) offer_scheme \<Rightarrow> bool" where
  "cleaned_ok r = (case scalar_cells r of None \<Rightarrow> False | Some (a, b) \<Rightarrow> 0 < a \<and> a \<le> b)"


text \<open>A row whose two salary cells are integers.\<close>

definition int_cells :: "(pyval, 'z) offer_scheme \<Rightarrow> bool" where
  "int_cells r = (scalar_cells r \<noteq> None)"

section \<open>Cleaning: what line 73 stores\<close>

lemma fill_maxSalary_cases:
  "fill_maxSalary column x = IntV x \<and> x \<noteq> 0 \<or> fill_maxSalary column x = SeriesV column \<and> x = 0"
  by (simp add: fill_maxSalary_def)


text \<open>
  The part of the cleaning step that works as the specification says: the surviving records
  are those with a non-zero \<open>minSalary\<close>, in their order, and a non-zero \<open>maxSalary\<close> is
  kept.
\<close>

lemma cleaning_survivors:
  "map minSalary (cleaning offers) = map IntV (filter (\<lambda>m. m \<noteq> 0) (map minSalary offers))"
  by (simp add: cleaning_def Let_def remove_unadvertised_def filter_map comp_def)

lemma cleaning_keeps_nonzero:
  assumes "\<forall>off \<in> set (remove_unadvertised offers). maxSalary off \<noteq> 0"
  shows "cleaning offers
     = map (\<lambda>off. \<lparr>minSalary = IntV (minSalary off), maxSalary = IntV (maxSalary off)\<rparr>)
           (remove_unadvertised offers)"
  using assms by (simp add: cleaning_def Let_def fill_maxSalary_def)

text \<open>
  Claim C1. The cleaning step drops exactly the records with \<open>minSalary = 0\<close> and leaves a
  non-zero \<open>maxSalary\<close> as it is; a surviving record with \<open>maxSalary = 0\<close> is meant to get
  its own \<open>minSalary\<close> (the comment of line 72). Evaluated on three offers, the last with
  \<open>maxSalary = 0\<close>: the record with \<open>minSalary = 0\<close> is dropped, and the cell of the last
  record holds the whole column \<open>[10000, 30000]\<close>, not the integer \<open>30000\<close>.
\<close>

theorem cleaning_stores_column:
  "cleaning [\<lparr>minSalary = 10000, maxSalary = 20000\<rparr>, \<lparr>minSalary = 0, maxSalary = 5\<rparr>,
             \<lparr>minSalary = 30000, maxSalary = 0\<rparr>]
     = [\<lparr>minSalary = IntV 10000, maxSalary = IntV 20000\<rparr>,
        \<lparr>minSalary = IntV 30000, maxSalary = SeriesV [10000, 30000]\<rparr>]
   \<and> SeriesV [10000, 30000] \<noteq> IntV 30000"
  by (simp add: cleaning_def remove_unadvertised_def fill_maxSalary_def)

section \<open>Statistics of the cleaned frame\<close>

subsection \<open>When the function returns\<close>

lemma scalar_frame_filled:
  assumes "\<forall>off \<in> set xs. maxSalary off \<noteq> 0"
  shows "scalar_frame (map (\<lambda>off. \<lparr>minSalary = IntV (minSalary off),
            maxSalary = fill_maxSalary column (maxSalary off)\<rparr>) xs)
         = Some (map (\<lambda>off. (minSalary off, maxSalary off)) xs)"
  using assms by (induction xs) (simp_all add: scalar_cells_def fill_maxSalary_def)

lemma scalar_frame_series:
  assumes "off \<in> set xs" and "maxSalary off = 0"
  shows "scalar_frame (map (\<lambda>off. \<lparr>minSalary = IntV (minSalary off),
            maxSalary = fill_maxSalary column (maxSalary off)\<rparr>) xs) = None"
  using assms
  by (induction xs) (auto simp: scalar_cells_def fill_maxSalary_def split: option.splits)

lemma series_min_eq: "xs \<noteq> [] \<Longrightarrow> series_min xs = Min (set xs)"
  by (cases xs) (simp_all add: series_min_def Min.set_eq_fold [symmetric])

lemma series_max_eq: "xs \<noteq> [] \<Longrightarrow> series_max xs = Max (set xs)"
  by (cases xs) (simp_all add: series_max_def Max.set_eq_fold [symmetric])

text \<open>
  With a surviving record and no surviving \<open>maxSalary = 0\<close>, the function returns the
  statistics of the surviving records.
\<close>

lemma calculate_salary_stats_scalar:
  assumes "remove_unadvertised offers \<noteq> []"
    and "\<forall>off \<in> set (remove_unadvertised offers). maxSalary off \<noteq> 0"
  shows "calculate_salary_stats offers = Inr (Some
     \<lparr>df = map (\<lambda>off. \<lparr>minSalary = IntV (minSalary off), maxSalary = IntV (maxSalary off),
                         salary_mean = row_mean (minSalary off) (maxSalary off)\<rparr>)
                (remove_unadvertised offers),
      mean = py_int (series_mean
               (map (\<lambda>off. row_mean (minSalary off) (maxSalary off)) (remove_unadvertised offers))),
      median = py_int (series_median
               (map (\<lambda>off. row_mean (minSalary off) (maxSalary off)) (remove_unadvertised offers))),
      min' = series_min (map minSalary (remove_unadvertised offers)),
      max' = series_max (map maxSalary (remove_unadvertised offers))\<rparr>)"
proof -
  have ne: "offers \<noteq> []"
    using assms(1) by (auto simp: remove_unadvertised_def)
  have sf: "scalar_frame (cleaning offers)
      = Some (map (\<lambda>off. (minSalary off, maxSalary off)) (remove_unadvertised offers))"
    unfolding cleaning_def Let_def by (rule scalar_frame_filled [OF assms(2)])
  show ?thesis
    unfolding calculate_salary_stats_def sf
    using ne assms(1) by (simp add: Let_def comp_def)
qed

text \<open>A surviving record with \<open>maxSalary = 0\<close> makes the whole query fail.\<close>

lemma calculate_salary_stats_series:
  assumes "off \<in> set (remove_unadvertised offers)" and "maxSalary off = 0"
  shows "calculate_salary_stats offers = Inl TypeError"
proof -
  have ne: "offers \<noteq> []"
    using assms(1) by (auto simp: remove_unadvertised_def)
  have "scalar_frame (cleaning offers) = None"
    unfolding cleaning_def Let_def by (rule scalar_frame_series [OF assms])
  with ne show ?thesis
    by (simp add: calculate_salary_stats_def)
qed


lemma stats_min_max:
  assumes "remove_unadvertised offers \<noteq> []"
    and "\<forall>off \<in> set (remove_unadvertised offers). maxSalary off \<noteq> 0"
  shows "\<exists>st. calculate_salary_stats offers = Inr (Some st)
     \<and> min' st = Min (minSalary ` set (remove_unadvertised offers))
     \<and> max' st = Max (maxSalary ` set (remove_unadvertised offers))"
  using assms
  by (simp add: calculate_salary_stats_scalar series_min_eq series_max_eq)

subsection \<open>Truncation and floor\<close>

lemma ceiling_rat_div: "\<lceil>(of_int a :: rat) / of_int b\<rceil> = - ((- a) div b)"
proof -
  have "\<lceil>(of_int a :: rat) / of_int b\<rceil> = - \<lfloor>(of_int (- a) :: rat) / of_int b\<rfloor>"
    by (simp add: ceiling_def)
  then show ?thesis by (simp only: floor_divide_of_int_eq)
qed

lemma py_int_divide:
  assumes "0 < b"
  shows "py_int (of_int a / of_int b) = (if a < 0 then - ((- a) div b) else a div b)"
proof -
  have "((of_int a :: rat) / of_int b < 0) = (a < 0)"
    using assms by (simp add: divide_less_0_iff)
  then show ?thesis
    unfolding py_int_def by (simp only: ceiling_rat_div floor_divide_of_int_eq)
qed


lemma py_int_of_int: "py_int (of_int a) = a"
  by (simp add: py_int_def)

lemma row_mean_code:
  "row_mean a b = (if a + b < 0 then - ((- (a + b)) div 2) else (a + b) div 2)"
proof -
  have "row_mean a b = py_int (of_int (a + b) / of_int 2)"
    by (simp add: row_mean_def)
  also have "\<dots> = (if a + b < 0 then - ((- (a + b)) div 2) else (a + b) div 2)"
    by (rule py_int_divide) simp
  finally show ?thesis .
qed





lemma series_mean_code:
  assumes "xs \<noteq> []"
  shows "py_int (series_mean xs) =
     (if sum_list xs < 0 then - ((- sum_list xs) div int (length xs))
      else sum_list xs div int (length xs))"
proof -
  have "series_mean xs = of_int (sum_list xs) / of_int (int (length xs))"
    by (simp add: series_mean_def)
  moreover have "0 < int (length xs)"
    using assms by simp
  ultimately show ?thesis
    by (simp only: py_int_divide)
qed

lemma series_median_code:
  "py_int (series_median xs) =
     (let s = sort xs; n = length s
      in if odd n then s ! (n div 2) else row_mean (s ! (n div 2 - 1)) (s ! (n div 2)))"
  by (simp add: series_median_def Let_def py_int_of_int row_mean_def)

text \<open>The equations that evaluate \<open>calculate_salary_stats\<close> on a concrete list of offers.\<close>

lemmas stats_eval =
  calculate_salary_stats_def cleaning_def remove_unadvertised_def fill_maxSalary_def
  scalar_cells_def row_mean_code series_mean_code series_median_code series_min_def
  series_max_def

subsection \<open>The invariant after cleaning\<close>

text \<open>
  Claim C2, as stated, fails: the filter of line 71 tests \<open>minSalary \<noteq> 0\<close>, not
  \<open>minSalary > 0\<close>, and nothing compares \<open>maxSalary\<close> with \<open>minSalary\<close>. An offer with
  \<open>maxSalary < minSalary\<close> and an offer with a negative \<open>minSalary\<close> both survive
  unchanged, and the statistics of the first have \<open>max < min\<close>.
\<close>

theorem cleaning_invariant_counterexample:
  "\<not> list_all cleaned_ok (cleaning [\<lparr>minSalary = 20000, maxSalary = 10000\<rparr>])
   \<and> \<not> list_all cleaned_ok (cleaning [\<lparr>minSalary = - 5, maxSalary = 10\<rparr>])
   \<and> calculate_salary_stats [\<lparr>minSalary = 20000, maxSalary = 10000\<rparr>]
     = Inr (Some \<lparr>df = [\<lparr>minSalary = IntV 20000, maxSalary = IntV 10000, salary_mean = 15000\<rparr>],
                  mean = 15000, median = 15000, min' = 20000, max' = 10000\<rparr>)"
  by (simp add: stats_eval cleaned_ok_def)

text \<open>
  Claim C2, amended. When every offer of the input has \<open>0 \<le> minSalary \<le> maxSalary\<close>,
  every record that survives the cleaning step has integer cells with
  \<open>maxSalary \<ge> minSalary > 0\<close>, and, when a record survives, the function returns
  statistics with \<open>max \<ge> min \<ge> 0\<close>.
\<close>

theorem cleaning_invariant:
  assumes "\<forall>off \<in> set offers. 0 \<le> minSalary off \<and> minSalary off \<le> maxSalary off"
  shows "list_all cleaned_ok (cleaning offers)
     \<and> length (cleaning offers) = length (remove_unadvertised offers)
     \<and> (remove_unadvertised offers \<noteq> [] \<longrightarrow>
          (\<exists>st. calculate_salary_stats offers = Inr (Some st)
             \<and> 0 \<le> min' st \<and> min' st \<le> max' st))"
proof -
  let ?S = "remove_unadvertised offers"
  have S: "0 < minSalary off \<and> minSalary off \<le> maxSalary off" if "off \<in> set ?S" for off
  proof -
    from that have "off \<in> set offers" and "minSalary off \<noteq> 0"
      by (simp_all add: remove_unadvertised_def)
    with assms show ?thesis by force
  qed
  then have nz: "\<forall>off \<in> set ?S. maxSalary off \<noteq> 0"
    by force
  have "cleaned_ok \<lparr>minSalary = IntV (minSalary off),
        maxSalary = fill_maxSalary column (maxSalary off)\<rparr>" if "off \<in> set ?S" for off column
    using S [OF that] by (simp add: cleaned_ok_def scalar_cells_def fill_maxSalary_def)
  then have inv: "list_all cleaned_ok (cleaning offers)"
    by (simp add: cleaning_def Let_def list_all_iff)
  have len: "length (cleaning offers) = length ?S"
    by (simp add: cleaning_def Let_def)
  have st: "\<exists>st. calculate_salary_stats offers = Inr (Some st)
      \<and> 0 \<le> min' st \<and> min' st \<le> max' st" if ne: "?S \<noteq> []"
  proof -
    from stats_min_max [OF ne nz] obtain st
      where c: "calculate_salary_stats offers = Inr (Some st)"
        and mn: "min' st = Min (minSalary ` set ?S)"
        and mx: "max' st = Max (maxSalary ` set ?S)"
      by blast
    from ne obtain off where off: "off \<in> set ?S"
      by (cases ?S) auto
    have "Min (minSalary ` set ?S) \<in> minSalary ` set ?S"
      using ne by (intro Min_in) simp_all
    then have pos: "0 < min' st"
      using S mn by auto
    have "min' st \<le> minSalary off"
      unfolding mn using off by (intro Min_le) simp_all
    also have "\<dots> \<le> maxSalary off"
      using S [OF off] by simp
    also have "\<dots> \<le> max' st"
      unfolding mx using off by (intro Max_ge) simp_all
    finally have "min' st \<le> max' st" .
    with c pos show ?thesis by auto
  qed
  from inv len st show ?thesis by blast
qed

text \<open>The amended claim C2 on three offers, one of them dropped.\<close>

theorem cleaning_invariant_witness:
  "list_all cleaned_ok
     (cleaning [\<lparr>minSalary = 10000, maxSalary = 20000\<rparr>, \<lparr>minSalary = 0, maxSalary = 0\<rparr>,
                \<lparr>minSalary = 30000, maxSalary = 30000\<rparr>])
   \<and> (\<exists>st. calculate_salary_stats
            [\<lparr>minSalary = 10000, maxSalary = 20000\<rparr>, \<lparr>minSalary = 0, maxSalary = 0\<rparr>,
             \<lparr>minSalary = 30000, maxSalary = 30000\<rparr>] = Inr (Some st)
          \<and> 0 \<le> min' st \<and> min' st \<le> max' st)"
  using cleaning_invariant [of
      "[\<lparr>minSalary = 10000, maxSalary = 20000\<rparr>, \<lparr>minSalary = 0, maxSalary = 0\<rparr>,
        \<lparr>minSalary = 30000, maxSalary = 30000\<rparr>]"]
  by (simp add: remove_unadvertised_def)

subsection \<open>Midpoint, mean and median\<close>




subsection \<open>Minimum and maximum\<close>

text \<open>
  Claim C7. \<open>min\<close> is the least \<open>minSalary\<close> and \<open>max\<close> the greatest \<open>maxSalary\<close> of the
  surviving records, \<open>maxSalary\<close> taken after the replacement of zeros (lemma
  \<open>stats_min_max\<close> shows it for inputs where no zero is replaced). Evaluated on two offers,
  the second with \<open>maxSalary = 0\<close>: the claim gives \<open>max = 30000\<close>, but line 73 has stored
  the column \<open>[10000, 30000]\<close> in that cell, the maximum of line 89 is taken over a column
  that holds a Series, and the function returns no statistics.
\<close>

theorem max_over_stored_column:
  "calculate_salary_stats
     [\<lparr>minSalary = 10000, maxSalary = 20000\<rparr>, \<lparr>minSalary = 30000, maxSalary = 0\<rparr>]
   = Inl TypeError"
  by (simp add: stats_eval)

section \<open>The bucket grid and the membership test\<close>

lemma ex_grid: "indexes 20000 5000 = [0, 5000, 10000, 15000, 20000]"
  by (simp add: indexes_def query_width_def upto.simps)

lemma indexes_nonempty: "0 < box_width \<Longrightarrow> 0 \<le> mx \<Longrightarrow> indexes mx box_width \<noteq> []"
proof -
  assume "0 < box_width" "0 \<le> mx"
  then have "0 \<le> mx div box_width"
    by (simp add: pos_imp_zdiv_nonneg_iff)
  then show ?thesis
    by (simp add: indexes_def query_width_def)
qed

lemma distinct_indexes: "0 < box_width \<Longrightarrow> distinct (indexes mx box_width)"
  by (simp add: indexes_def distinct_map inj_on_def)

lemma sorted_indexes: "0 < box_width \<Longrightarrow> sorted (indexes mx box_width)"
  by (simp add: indexes_def sorted_map sorted_wrt_mono_rel [OF _ sorted_upto])

text \<open>
  Claim C5. For a positive bucket width the grid is the list of the multiples
  \<open>k * box_width\<close> for \<open>k = 0, \<dots>, mx div box_width\<close> (\<open>div\<close> is the floor of the
  quotient), in ascending order and without repetition; it is computed from \<open>max_\<close> and
  the width alone, so replacing the offers of the entry leaves it unchanged.
\<close>

theorem bucket_grid:
  assumes "0 < box_width"
  shows "indexes mx box_width = map (\<lambda>k. k * box_width) [0..mx div box_width]
     \<and> set (indexes mx box_width) = {b. \<exists>k. 0 \<le> k \<and> k \<le> mx div box_width \<and> b = k * box_width}
     \<and> distinct (indexes mx box_width)
     \<and> sorted (indexes mx box_width)
     \<and> indexes (max' (stat\<lparr>df := rows\<rparr>)) box_width = indexes (max' stat) box_width"
proof -
  have l: "indexes mx box_width = map (\<lambda>k. k * box_width) [0..mx div box_width]"
    by (simp add: indexes_def query_width_def)
  have s: "set (indexes mx box_width)
      = {b. \<exists>k. 0 \<le> k \<and> k \<le> mx div box_width \<and> b = k * box_width}"
    unfolding l by auto
  have i: "indexes (max' (stat\<lparr>df := rows\<rparr>)) box_width = indexes (max' stat) box_width"
    by simp
  from l s distinct_indexes [OF assms, of mx] sorted_indexes [OF assms, of mx] i
  show ?thesis by blast
qed

text \<open>Claim C5 at \<open>max_ = 20000\<close> and width 5000: five buckets, 20000 included.\<close>

theorem bucket_grid_witness:
  "indexes 20000 5000 = [0, 5000, 10000, 15000, 20000]
   \<and> 20000 div 5000 = (4 :: int)
   \<and> distinct (indexes 20000 5000) \<and> sorted (indexes 20000 5000)"
  using bucket_grid [of 5000 20000] by (simp add: upto.simps)

lemma range_contains_error:
  "scalar a = None \<or> scalar b = None \<Longrightarrow> range_contains index a b = Inl TypeError"
  by (cases a; cases b) simp_all

lemma range_contains_only_TypeError: "range_contains index a b = Inl e \<Longrightarrow> e = TypeError"
  by (cases a; cases b) simp_all

lemma boxes_filled_int:
  assumes "minSalary row = IntV lo" and "maxSalary row = IntV hi"
  shows "boxes_filled ixs row = Inr (filter (\<lambda>b. lo \<le> b \<and> b < hi) ixs)"
  using assms by (induction ixs) simp_all

lemma boxes_filled_error:
  assumes "ixs \<noteq> []" and "\<not> int_cells row"
  shows "boxes_filled ixs row = Inl TypeError"
proof -
  from assms(2) have "scalar (minSalary row) = None \<or> scalar (maxSalary row) = None"
    by (auto simp: int_cells_def scalar_cells_def split: option.splits)
  then have "range_contains index (minSalary row) (maxSalary row) = Inl TypeError" for index
    by (rule range_contains_error)
  with assms(1) show ?thesis
    by (cases ixs) simp_all
qed

lemma boxes_filled_only_TypeError: "boxes_filled ixs row = Inl e \<Longrightarrow> e = TypeError"
  by (induction ixs arbitrary: e)
     (auto split: sum.splits dest: range_contains_only_TypeError)

lemma add_offers_error:
  assumes "row \<in> set rows" and "boxes_filled ixs row = Inl TypeError"
  shows "add_offers ixs res rows = Inl TypeError"
  using assms
proof (induction rows arbitrary: res)
  case Nil
  then show ?case by simp
next
  case (Cons r rows)
  show ?case
  proof (cases "add_offer ixs res r")
    case (Inl e)
    then have "e = TypeError"
      by (auto simp: add_offer_def split: sum.splits dest: boxes_filled_only_TypeError)
    with Inl show ?thesis by simp
  next
    case (Inr res')
    then have "r \<noteq> row"
      using Cons.prems(2) by (auto simp: add_offer_def)
    with Cons.prems have "row \<in> set rows" by simp
    with Cons.IH Cons.prems(2) Inr show ?thesis by simp
  qed
qed

section \<open>Weights\<close>



lemma weight_of_add_weight:
  "weight_of (add_weight box w res) b = weight_of res b + (if b = box then w else 0)"
  by (induction res) (auto simp: weight_of_def)

lemma weight_of_fill_boxes:
  "distinct boxes \<Longrightarrow>
   weight_of (fill_boxes w boxes res) b = weight_of res b + (if b \<in> set boxes then w else 0)"
  by (induction boxes arbitrary: res) (auto simp: weight_of_add_weight)



text \<open>
  Claim C3. For a row with integer cells \<open>lo\<close> and \<open>hi\<close> and a positive width, the
  buckets collected for the row are exactly the bucket starts \<open>b\<close> of the grid with
  \<open>lo \<le> b < hi\<close>, each once; the row adds \<open>1 / n\<close> to the weight of each of these \<open>n\<close>
  buckets and nothing to any other. For the single offer from 10000 to 20000, width 5000
  and \<open>max_ = 20000\<close>, the result is weight \<open>1/2\<close> for the buckets 10000 and 15000.
\<close>

theorem bucket_overlap:
  assumes "0 < box_width" and "minSalary row = IntV lo" and "maxSalary row = IntV hi"
  shows "\<exists>boxes res'.
       boxes_filled (indexes mx box_width) row = Inr boxes
     \<and> (\<forall>b. b \<in> set boxes \<longleftrightarrow> b \<in> set (indexes mx box_width) \<and> lo \<le> b \<and> b < hi)
     \<and> distinct boxes
     \<and> add_offer (indexes mx box_width) res row = Inr res'
     \<and> (\<forall>b. weight_of res' b =
            weight_of res b + (if b \<in> set boxes then 1 / of_nat (length boxes) else 0))
     \<and> plot_distrib
          \<lparr>df = [\<lparr>minSalary = IntV 10000, maxSalary = IntV 20000, salary_mean = 15000\<rparr>],
           mean = 15000, median = 15000, min' = 10000, max' = 20000, qname = name\<rparr> 5000
         = Inr [(10000, 1 / 2), (15000, 1 / 2)]"
proof -
  let ?ixs = "indexes mx box_width"
  let ?boxes = "filter (\<lambda>b. lo \<le> b \<and> b < hi) ?ixs"
  let ?res' = "if ?boxes \<noteq> [] then fill_boxes (1 / of_nat (length ?boxes)) ?boxes res else res"
  have b: "boxes_filled ?ixs row = Inr ?boxes"
    by (rule boxes_filled_int [OF assms(2,3)])
  have m: "\<forall>b. b \<in> set ?boxes \<longleftrightarrow> b \<in> set ?ixs \<and> lo \<le> b \<and> b < hi"
    by auto
  have d: "distinct ?boxes"
    using distinct_indexes [OF assms(1)] by simp
  have a: "add_offer ?ixs res row = Inr ?res'"
    by (simp add: add_offer_def b)
  have w: "\<forall>b. weight_of ?res' b =
      weight_of res b + (if b \<in> set ?boxes then 1 / of_nat (length ?boxes) else 0)"
  proof (cases "?boxes = []")
    case True
    then show ?thesis by simp
  next
    case False
    then show ?thesis
      using weight_of_fill_boxes [OF d] by simp
  qed
  have s: "plot_distrib
      \<lparr>df = [\<lparr>minSalary = IntV 10000, maxSalary = IntV 20000, salary_mean = 15000\<rparr>],
       mean = 15000, median = 15000, min' = 10000, max' = 20000, qname = name\<rparr> 5000
     = Inr [(10000, 1 / 2), (15000, 1 / 2)]"
    by (simp add: plot_distrib_def add_offer_def boxes_filled_int ex_grid)
  from b m d a w s show ?thesis by blast
qed

text \<open>
  Claim C3 for the offer from 10000 to 20000 on the grid of width 5000, added to a table
  that already holds weight 1 for the bucket 10000.
\<close>

theorem bucket_overlap_witness:
  "boxes_filled (indexes 20000 5000)
      \<lparr>minSalary = IntV 10000, maxSalary = IntV 20000, salary_mean = 15000\<rparr> = Inr [10000, 15000]
   \<and> add_offer (indexes 20000 5000) [(10000, 1)]
      \<lparr>minSalary = IntV 10000, maxSalary = IntV 20000, salary_mean = 15000\<rparr>
       = Inr [(10000, 3 / 2), (15000, 1 / 2)]"
  using bucket_overlap [of 5000
      "\<lparr>minSalary = IntV 10000, maxSalary = IntV 20000, salary_mean = 15000\<rparr>" 10000 20000
      20000 "[(10000, 1)]"]
  by (simp add: add_offer_def boxes_filled_int ex_grid)

section \<open>Total mass of a distribution\<close>








section \<open>Cells that are not integers\<close>

text \<open>
  Claim C10. The membership test has a value only for two integer cells. When the grid
  is not empty (a positive width and \<open>max_ \<ge> 0\<close>) and some row of the frame has a float
  in \<open>minSalary\<close> or \<open>maxSalary\<close>, the test raises \<open>TypeError\<close> for every bucket start and
  \<open>plot_distrib\<close> ends with \<open>TypeError\<close> instead of a table.
\<close>

theorem range_needs_integers:
  assumes "0 < box_width" and "0 \<le> max' stat" and "row \<in> set (df stat)"
    and "(\<exists>x. minSalary row = FloatV x) \<or> (\<exists>x. maxSalary row = FloatV x)"
  shows "(\<forall>index. range_contains index (minSalary row) (maxSalary row) = Inl TypeError)
     \<and> plot_distrib stat box_width = Inl TypeError"
proof -
  from assms(4) have n: "scalar (minSalary row) = None \<or> scalar (maxSalary row) = None"
    by auto
  then have r: "\<forall>index. range_contains index (minSalary row) (maxSalary row) = Inl TypeError"
    by (simp add: range_contains_error)
  from n have "\<not> int_cells row"
    by (auto simp: int_cells_def scalar_cells_def split: option.splits)
  then have "boxes_filled (indexes (max' stat) box_width) row = Inl TypeError"
    using indexes_nonempty [OF assms(1,2)] by (simp add: boxes_filled_error)
  then have "add_offers (indexes (max' stat) box_width) [] (df stat) = Inl TypeError"
    using assms(3) by (simp add: add_offers_error)
  with assms(1) r show ?thesis
    by (simp add: plot_distrib_def)
qed

text \<open>Claim C10 on a frame whose second row has \<open>minSalary = 10000.5\<close>.\<close>

theorem range_needs_integers_witness:
  "plot_distrib
     \<lparr>df = [\<lparr>minSalary = IntV 10000, maxSalary = IntV 20000, salary_mean = 15000\<rparr>,
            \<lparr>minSalary = FloatV (20001 / 2), maxSalary = IntV 20000, salary_mean = 15000\<rparr>],
      mean = 15000, median = 15000, min' = 10000, max' = 20000, qname = ''q''\<rparr> 1000
   = Inl TypeError"
proof -
  let ?row = "\<lparr>minSalary = FloatV (20001 / 2), maxSalary = IntV 20000, salary_mean = 15000\<rparr>"
  let ?stat = "\<lparr>df = [\<lparr>minSalary = IntV 10000, maxSalary = IntV 20000, salary_mean = 15000\<rparr>,
                       ?row],
                 mean = 15000, median = 15000, min' = 10000, max' = 20000, qname = ''q''\<rparr>"
  have w: "(0 :: int) < 1000" by simp
  have m: "0 \<le> max' ?stat" by simp
  have r: "?row \<in> set (df ?stat)" by simp
  have f: "(\<exists>x. minSalary ?row = FloatV x) \<or> (\<exists>x. maxSalary ?row = FloatV x)"
    by (rule disjI1, rule exI [of _ "20001 / 2"]) simp
  from range_needs_integers [OF w m r f] show ?thesis by blast
qed

section \<open>The report\<close>

subsection \<open>Order of the entries\<close>

lemma by_max_median_le:
  "by_max_median a \<le> by_max_median b \<longleftrightarrow>
     max' a < max' b \<or> (max' a = max' b \<and> median a \<le> median b)"
  by (auto simp: by_max_median_def less_eq_prod_def)

lemma sorted_key_ascending:
  assumes "sorted (map by_max_median xs)"
  shows "sorted_wrt (\<lambda>a b. max' a < max' b \<or> (max' a = max' b \<and> median a \<le> median b)) xs"
proof -
  from assms have "sorted_wrt (\<lambda>a b. by_max_median a \<le> by_max_median b) xs"
    by (simp add: sorted_wrt_map)
  then show ?thesis
    by (simp only: by_max_median_le)
qed

lemma sorted_key_descending:
  assumes "sorted (map by_max_median xs)"
  shows "sorted_wrt (\<lambda>a b. max' b < max' a \<or> (max' a = max' b \<and> median b \<le> median a)) (rev xs)"
proof -
  from sorted_key_ascending [OF assms]
  have "sorted_wrt (\<lambda>b a. max' a < max' b \<or> (max' a = max' b \<and> median a \<le> median b)) (rev xs)"
    by (simp add: sorted_wrt_rev)
  then show ?thesis
    by (rule sorted_wrt_mono_rel [rotated]) auto
qed

lemma mset_descending: "mset (descending stats) = mset stats"
  by (simp add: descending_def sort_reverse_def)

lemma mset_ascending: "mset (ascending stats) = mset stats"
  by (simp add: ascending_def mset_descending)

lemma keys_ascending_rev_descending:
  "map by_max_median (ascending stats) = rev (map by_max_median (descending stats))"
proof -
  let ?keys = "map by_max_median stats"
  have a: "sort ?keys = map by_max_median (ascending stats)"
  proof (rule properties_for_sort)
    show "mset (map by_max_median (ascending stats)) = mset ?keys"
      by (simp only: mset_map mset_ascending)
    show "sorted (map by_max_median (ascending stats))"
      by (simp add: ascending_def)
  qed
  have d: "sort ?keys = rev (map by_max_median (descending stats))"
  proof (rule properties_for_sort)
    have "mset (rev (map by_max_median (descending stats)))
        = mset (map by_max_median (descending stats))"
      by (rule mset_rev)
    then show "mset (rev (map by_max_median (descending stats))) = mset ?keys"
      by (simp only: mset_map mset_descending)
    show "sorted (rev (map by_max_median (descending stats)))"
      by (simp add: descending_def sort_reverse_def rev_map)
  qed
  from a d show ?thesis by simp
qed

text \<open>
  Claim C8. The descending order holds the same entries, each before every entry with a
  smaller \<open>max\<close> and, among equal \<open>max\<close>, before none with a greater \<open>median\<close>; the
  ascending order is sorted by the same two keys the other way round, and its sequence of
  keys is the reverse of the descending one. Two entries with \<open>max = 50000\<close> and medians
  30000 and 20000 come out with the median 30000 first, whichever order they arrive in.
\<close>

theorem report_order:
  "sorted_wrt (\<lambda>a b. max' b < max' a \<or> (max' a = max' b \<and> median b \<le> median a))
      (descending stats)
   \<and> mset (descending stats) = mset stats
   \<and> sorted_wrt (\<lambda>a b. max' a < max' b \<or> (max' a = max' b \<and> median a \<le> median b))
      (ascending stats)
   \<and> mset (ascending stats) = mset stats
   \<and> map by_max_median (ascending stats) = rev (map by_max_median (descending stats))
   \<and> descending
        [\<lparr>df = d1, mean = m1, median = 30000, min' = l1, max' = 50000, qname = n1\<rparr>,
         \<lparr>df = d2, mean = m2, median = 20000, min' = l2, max' = 50000, qname = n2\<rparr>]
      = [\<lparr>df = d1, mean = m1, median = 30000, min' = l1, max' = 50000, qname = n1\<rparr>,
         \<lparr>df = d2, mean = m2, median = 20000, min' = l2, max' = 50000, qname = n2\<rparr>]
   \<and> descending
        [\<lparr>df = d2, mean = m2, median = 20000, min' = l2, max' = 50000, qname = n2\<rparr>,
         \<lparr>df = d1, mean = m1, median = 30000, min' = l1, max' = 50000, qname = n1\<rparr>]
      = [\<lparr>df = d1, mean = m1, median = 30000, min' = l1, max' = 50000, qname = n1\<rparr>,
         \<lparr>df = d2, mean = m2, median = 20000, min' = l2, max' = 50000, qname = n2\<rparr>]"
proof -
  have s: "sorted (map by_max_median (sort_key by_max_median (rev stats)))"
    by (rule sorted_sort_key)
  have d: "sorted_wrt (\<lambda>a b. max' b < max' a \<or> (max' a = max' b \<and> median b \<le> median a))
      (descending stats)"
    unfolding descending_def sort_reverse_def by (rule sorted_key_descending [OF s])
  have a: "sorted_wrt (\<lambda>a b. max' a < max' b \<or> (max' a = max' b \<and> median a \<le> median b))
      (ascending stats)"
    unfolding ascending_def by (rule sorted_key_ascending) (rule sorted_sort_key)
  have e1: "descending
        [\<lparr>df = d1, mean = m1, median = 30000, min' = l1, max' = 50000, qname = n1\<rparr>,
         \<lparr>df = d2, mean = m2, median = 20000, min' = l2, max' = 50000, qname = n2\<rparr>]
      = [\<lparr>df = d1, mean = m1, median = 30000, min' = l1, max' = 50000, qname = n1\<rparr>,
         \<lparr>df = d2, mean = m2, median = 20000, min' = l2, max' = 50000, qname = n2\<rparr>]"
    by (simp add: descending_def sort_reverse_def by_max_median_def less_eq_prod_def)
  have e2: "descending
        [\<lparr>df = d2, mean = m2, median = 20000, min' = l2, max' = 50000, qname = n2\<rparr>,
         \<lparr>df = d1, mean = m1, median = 30000, min' = l1, max' = 50000, qname = n1\<rparr>]
      = [\<lparr>df = d1, mean = m1, median = 30000, min' = l1, max' = 50000, qname = n1\<rparr>,
         \<lparr>df = d2, mean = m2, median = 20000, min' = l2, max' = 50000, qname = n2\<rparr>]"
    by (simp add: descending_def sort_reverse_def by_max_median_def less_eq_prod_def)
  from d a e1 e2 mset_descending mset_ascending keys_ascending_rev_descending
  show ?thesis by blast
qed

subsection \<open>Queries without usable offers\<close>








end
